theory Spec2Isabelle
  imports Complex_Main
begin

section \<open>Plagiarism detector: similarity engine and detection orchestrator\<close>

text \<open>
  A shallow embedding of \<^verbatim>\<open>app/services/similarity.py\<close>,
  \<^verbatim>\<open>app/services/embeddings.py\<close>, \<^verbatim>\<open>app/services/detection.py\<close>,
  \<^verbatim>\<open>app/config.py\<close> and the \<^verbatim>\<open>/compare\<close> handler of
  \<^verbatim>\<open>app/api/analyze.py\<close>.

  Conventions of the embedding:
  \<^item> a Python float is a \<open>real\<close>: a stored value, a comparison, a maximum and a minimum
    are exact; the float arithmetic of \<^verbatim>\<open>np.mean\<close> and \<^verbatim>\<open>np.std\<close> rounds, and these two
    functions of the numpy library are a parameter of the model; infinities and NaN are
    not modelled;
  \<^item> a two-dimensional numpy array is the list of its rows (\<open>real list list\<close>),
    \<open>shape[0]\<close> is the number of rows and \<open>size\<close> the number of elements;
  \<^item> an exception is the \<open>Inl\<close> side of a sum; the exception classes that the code
    raises are the constructors of \<open>error\<close>, with the message as argument;
  \<^item> a Python \<open>str\<close> is a \<open>string\<close>, one \<open>char\<close> for each code point below 256;
  \<^item> logging is dropped.
\<close>

subsection \<open>Exceptions\<close>

datatype error =
    ValueError string
  | RuntimeError string
  | IndexError

subsection \<open>numpy arrays\<close>

type_synonym vector = "real list"
type_synonym ndarray = "real list list"

text \<open>\<^verbatim>\<open>a.size\<close>: the number of elements.\<close>

definition nd_size :: "ndarray \<Rightarrow> nat" where
  "nd_size a = sum_list (map length a)"

text \<open>\<^verbatim>\<open>np.zeros((r, c))\<close>.\<close>

definition zeros :: "nat \<Rightarrow> nat \<Rightarrow> ndarray" where
  "zeros r c = replicate r (replicate c 0)"

text \<open>\<^verbatim>\<open>np.dot(u, v)\<close> on two one-dimensional arrays of one length.\<close>

definition dot :: "vector \<Rightarrow> vector \<Rightarrow> real" where
  "dot u v = sum_list (map2 (*) u v)"

text \<open>\<^verbatim>\<open>a[i, j] = v\<close>, for an index inside the array.\<close>

definition set_entry :: "ndarray \<Rightarrow> nat \<Rightarrow> nat \<Rightarrow> real \<Rightarrow> ndarray" where
  "set_entry a i j v = a[i := (a ! i)[j := v]]"

text \<open>\<^verbatim>\<open>a[i, j]\<close>: numpy raises IndexError outside the array.\<close>

definition get_entry :: "ndarray \<Rightarrow> nat \<Rightarrow> nat \<Rightarrow> error + real" where
  "get_entry a i j =
     (if i < length a \<and> j < length (a ! i) then Inr (a ! i ! j) else Inl IndexError)"

text \<open>A matrix with as many columns in every row as it has rows.\<close>

definition square :: "ndarray \<Rightarrow> bool" where
  "square a = list_all (\<lambda>r. length r = length a) a"

subsection \<open>SimilarityService.calculate\_similarity\_matrix\<close>

text \<open>The body of the inner loop, for one \<open>(i, j)\<close>.\<close>

definition matrix_cell :: "ndarray \<Rightarrow> nat \<Rightarrow> nat \<Rightarrow> ndarray \<Rightarrow> ndarray" where
  "matrix_cell embeddings i j similarity_matrix =
     (if i = j then set_entry similarity_matrix i j 1
      else if i < j then
        (let similarity = dot (embeddings ! i) (embeddings ! j)
         in set_entry (set_entry similarity_matrix i j similarity) j i similarity)
      else similarity_matrix)"

definition matrix_row :: "ndarray \<Rightarrow> nat \<Rightarrow> nat \<Rightarrow> ndarray \<Rightarrow> ndarray" where
  "matrix_row embeddings n_texts i similarity_matrix =
     fold (matrix_cell embeddings i) [0..<n_texts] similarity_matrix"

definition calculate_similarity_matrix :: "ndarray \<Rightarrow> error + ndarray" where
  "calculate_similarity_matrix embeddings =
     (if nd_size embeddings = 0 then Inl (ValueError ''Empty embeddings array provided'')
      else
        (let n_texts = length embeddings
         in Inr (fold (matrix_row embeddings n_texts) [0..<n_texts] (zeros n_texts n_texts))))"

subsection \<open>SimilarityService.find\_similar\_pairs\<close>

type_synonym raw_pair = "nat \<times> nat \<times> real"

text \<open>
  \<^verbatim>\<open>similar_pairs.sort(key=lambda x: x[2], reverse=True)\<close>. Python's \<open>list.sort\<close> is
  stable, also with \<open>reverse=True\<close>: it reverses the list, sorts it in ascending order of
  the key with a stable sort, and reverses the result, so that elements with equal keys
  keep the order they had. \<open>sort_key\<close> is a stable sort (insertion sort), and a stable
  sort has one possible result.
\<close>

definition sort_reverse :: "('a \<Rightarrow> real) \<Rightarrow> 'a list \<Rightarrow> 'a list" where
  "sort_reverse key xs = rev (sort_key key (rev xs))"

text \<open>The inner loop \<^verbatim>\<open>for j in range(i + 1, n_texts)\<close>, over the values of \<open>j\<close> left.\<close>

fun scan_row :: "ndarray \<Rightarrow> real \<Rightarrow> nat \<Rightarrow> nat list \<Rightarrow> raw_pair list \<Rightarrow> error + raw_pair list" where
  "scan_row similarity_matrix threshold i [] similar_pairs = Inr similar_pairs"
| "scan_row similarity_matrix threshold i (j # js) similar_pairs =
     (case get_entry similarity_matrix i j of
        Inl e \<Rightarrow> Inl e
      | Inr similarity \<Rightarrow>
          scan_row similarity_matrix threshold i js
            (if similarity \<ge> threshold then similar_pairs @ [(i, j, similarity)]
             else similar_pairs))"

text \<open>The outer loop \<^verbatim>\<open>for i in range(n_texts)\<close>, over the values of \<open>i\<close> left.\<close>

fun scan_rows :: "ndarray \<Rightarrow> real \<Rightarrow> nat \<Rightarrow> nat list \<Rightarrow> raw_pair list \<Rightarrow> error + raw_pair list" where
  "scan_rows similarity_matrix threshold n_texts [] similar_pairs = Inr similar_pairs"
| "scan_rows similarity_matrix threshold n_texts (i # is) similar_pairs =
     (case scan_row similarity_matrix threshold i [i + 1..<n_texts] similar_pairs of
        Inl e \<Rightarrow> Inl e
      | Inr similar_pairs' \<Rightarrow> scan_rows similarity_matrix threshold n_texts is similar_pairs')"

definition find_similar_pairs :: "ndarray \<Rightarrow> real \<Rightarrow> error + raw_pair list" where
  "find_similar_pairs similarity_matrix threshold =
     (if \<not> (0 \<le> threshold \<and> threshold \<le> 1)
      then Inl (ValueError ''Threshold must be between 0.0 and 1.0'')
      else
        (let n_texts = length similarity_matrix
         in case scan_rows similarity_matrix threshold n_texts [0..<n_texts] [] of
              Inl e \<Rightarrow> Inl e
            | Inr similar_pairs \<Rightarrow> Inr (sort_reverse (\<lambda>x. snd (snd x)) similar_pairs)))"

subsection \<open>SimilarityService.get\_similarity\_statistics\<close>

record similarity_statistics =
  total_pairs :: nat
  mean_similarity :: real
  max_similarity :: real
  min_similarity :: real
  std_similarity :: real

fun triangle_row :: "ndarray \<Rightarrow> nat \<Rightarrow> nat list \<Rightarrow> real list \<Rightarrow> error + real list" where
  "triangle_row similarity_matrix i [] upper_triangle = Inr upper_triangle"
| "triangle_row similarity_matrix i (j # js) upper_triangle =
     (case get_entry similarity_matrix i j of
        Inl e \<Rightarrow> Inl e
      | Inr v \<Rightarrow> triangle_row similarity_matrix i js (upper_triangle @ [v]))"

fun triangle_rows :: "ndarray \<Rightarrow> nat \<Rightarrow> nat list \<Rightarrow> real list \<Rightarrow> error + real list" where
  "triangle_rows similarity_matrix n_texts [] upper_triangle = Inr upper_triangle"
| "triangle_rows similarity_matrix n_texts (i # is) upper_triangle =
     (case triangle_row similarity_matrix i [i + 1..<n_texts] upper_triangle of
        Inl e \<Rightarrow> Inl e
      | Inr upper_triangle' \<Rightarrow> triangle_rows similarity_matrix n_texts is upper_triangle')"

text \<open>
  The numpy library is outside the repository. \<^verbatim>\<open>np.mean\<close> and \<^verbatim>\<open>np.std\<close> compute in
  float64, and their results are rounded: they are a parameter of the model, applied to
  a non-empty one-dimensional array. \<^verbatim>\<open>np.max\<close> and \<^verbatim>\<open>np.min\<close> return an element of
  the array, without arithmetic.
\<close>

record numpy =
  np_mean :: "real list \<Rightarrow> real"
  np_std :: "real list \<Rightarrow> real"

definition np_max :: "real list \<Rightarrow> real" where
  "np_max xs = Max (set xs)"

definition np_min :: "real list \<Rightarrow> real" where
  "np_min xs = Min (set xs)"

definition get_similarity_statistics :: "numpy \<Rightarrow> ndarray \<Rightarrow> error + similarity_statistics" where
  "get_similarity_statistics np similarity_matrix =
     (let n_texts = length similarity_matrix
      in case triangle_rows similarity_matrix n_texts [0..<n_texts] [] of
           Inl e \<Rightarrow> Inl e
         | Inr upper_triangle \<Rightarrow>
             if upper_triangle = [] then
               Inr \<lparr>total_pairs = 0, mean_similarity = 0, max_similarity = 0,
                    min_similarity = 0, std_similarity = 0\<rparr>
             else
               Inr \<lparr>total_pairs = length upper_triangle,
                    mean_similarity = np_mean np upper_triangle,
                    max_similarity = np_max upper_triangle,
                    min_similarity = np_min upper_triangle,
                    std_similarity = np_std np upper_triangle\<rparr>)"

subsection \<open>Python strings\<close>

text \<open>\<^verbatim>\<open>str.isspace\<close> on one character, for the code points below 256: the whitespace that
  \<^verbatim>\<open>str.strip()\<close> and \<^verbatim>\<open>str.rstrip()\<close> remove.\<close>

definition is_space :: "char \<Rightarrow> bool" where
  "is_space c =
     (let n = (of_char c :: nat)
      in (9 \<le> n \<and> n \<le> 13) \<or> (28 \<le> n \<and> n \<le> 32) \<or> n = 133 \<or> n = 160)"

definition rstrip :: "string \<Rightarrow> string" where
  "rstrip s = rev (dropWhile is_space (rev s))"

definition strip :: "string \<Rightarrow> string" where
  "strip s = dropWhile is_space (rstrip s)"

text \<open>\<^verbatim>\<open>s.rfind(c)\<close>: the highest index of \<open>c\<close> in \<open>s\<close>, or \<open>-1\<close>.\<close>

fun rfind :: "string \<Rightarrow> char \<Rightarrow> int" where
  "rfind [] c = - 1"
| "rfind (x # xs) c =
     (let r = rfind xs c in if r \<ge> 0 then r + 1 else if x = c then 0 else - 1)"

subsection \<open>DetectionService.\_create\_text\_preview\<close>

definition create_text_preview :: "string \<Rightarrow> nat \<Rightarrow> string" where
  "create_text_preview text0 max_length =
     (let text = strip text0
      in if length text \<le> max_length then text
         else
           (let truncated = rstrip (take max_length text);
                last_space = rfind truncated CHR '' '';
                truncated' = (if real_of_int last_space > real max_length * 0.8
                              then take (nat last_space) truncated else truncated)
            in truncated' @ ''...''))"

text \<open>The default \<^verbatim>\<open>max_length: int = 100\<close>, the only value the callers use.\<close>

definition default_max_length :: nat where
  "default_max_length = 100"

subsection \<open>Settings (config.py)\<close>

definition DEFAULT_MODEL :: string where
  "DEFAULT_MODEL = ''miniLM''"

definition MODELS :: "(string \<times> string) list" where
  "MODELS = [(''miniLM'', ''all-MiniLM-L6-v2''),
             (''mpnet'', ''all-mpnet-base-v2''),
             (''jina-small'', ''jina-embeddings-v2-small-en'')]"

text \<open>\<^verbatim>\<open>cls.MODELS.get(model_key, cls.MODELS[cls.DEFAULT_MODEL])\<close>; the default key is in
  the dictionary.\<close>

definition get_model_name :: "string \<Rightarrow> string" where
  "get_model_name model_key =
     (case map_of MODELS model_key of
        Some model_name \<Rightarrow> model_name
      | None \<Rightarrow> the (map_of MODELS DEFAULT_MODEL))"

definition get_available_models :: "string list" where
  "get_available_models = map fst MODELS"

subsection \<open>EmbeddingService (embeddings.py)\<close>

text \<open>
  The sentence-transformers library is outside the repository. It is a parameter of the
  model: \<open>SentenceTransformer\<close> is the constructor (model name, \<open>trust_remote_code\<close>)
  and \<open>encode\<close> the method \<^verbatim>\<open>model.encode(texts, ...)\<close>; each returns its value, or
  \<open>Inl\<close> the text of the exception it raises.
\<close>

record 'm transformers =
  SentenceTransformer :: "string \<Rightarrow> bool \<Rightarrow> string + 'm"
  encode :: "'m \<Rightarrow> string list \<Rightarrow> string + ndarray"

text \<open>The state of the service: the dictionary \<^verbatim>\<open>self._models\<close> of the loaded models.\<close>

type_synonym 'm models = "string \<rightharpoonup> 'm"

definition load_model :: "'m transformers \<Rightarrow> 'm models \<Rightarrow> string \<Rightarrow> (error + 'm) \<times> 'm models" where
  "load_model lib models model_key =
     (case models model_key of
        Some model \<Rightarrow> (Inr model, models)
      | None \<Rightarrow>
          (let model_name = get_model_name model_key;
               trust_remote = (model_key = ''jina-small'')
           in case SentenceTransformer lib model_name trust_remote of
                Inl e \<Rightarrow>
                  (Inl (RuntimeError (''Failed to load model '' @ model_key @ '': '' @ e)), models)
              | Inr model \<Rightarrow> (Inr model, models(model_key \<mapsto> model))))"

definition generate_embeddings ::
  "'m transformers \<Rightarrow> 'm models \<Rightarrow> string list \<Rightarrow> string \<Rightarrow> (error + ndarray) \<times> 'm models" where
  "generate_embeddings lib models texts model_key =
     (if texts = [] then
        (Inl (ValueError ''No texts provided for embedding generation''), models)
      else if model_key \<notin> set get_available_models then
        (Inl (ValueError (''Invalid model key: '' @ model_key)), models)
      else
        (case load_model lib models model_key of
           (Inl e, models') \<Rightarrow> (Inl e, models')
         | (Inr model, models') \<Rightarrow>
             (case encode lib model texts of
                Inl e \<Rightarrow> (Inl (RuntimeError (''Failed to generate embeddings: '' @ e)), models')
              | Inr embeddings \<Rightarrow> (Inr embeddings, models'))))"

subsection \<open>DetectionService (detection.py)\<close>

text \<open>\<^verbatim>\<open>SimilarityPair\<close> of \<^verbatim>\<open>app.models.schema\<close>, by the fields the service fills.\<close>

record similarity_pair =
  index_1 :: nat
  index_2 :: nat
  similarity :: real
  text_1_preview :: string
  text_2_preview :: string

text \<open>\<^verbatim>\<open>texts[i]\<close> on a Python list, for an index that is not negative.\<close>

definition list_get :: "'a list \<Rightarrow> nat \<Rightarrow> error + 'a" where
  "list_get xs i = (if i < length xs then Inr (xs ! i) else Inl IndexError)"

fun create_similarity_pairs :: "raw_pair list \<Rightarrow> string list \<Rightarrow> error + similarity_pair list" where
  "create_similarity_pairs [] texts = Inr []"
| "create_similarity_pairs ((index1, index2, sim) # similar_pairs_raw) texts =
     (case list_get texts index1 of
        Inl e \<Rightarrow> Inl e
      | Inr text1 \<Rightarrow>
          (case list_get texts index2 of
             Inl e \<Rightarrow> Inl e
           | Inr text2 \<Rightarrow>
               (case create_similarity_pairs similar_pairs_raw texts of
                  Inl e \<Rightarrow> Inl e
                | Inr similarity_pairs \<Rightarrow>
                    Inr (\<lparr>index_1 = index1, index_2 = index2, similarity = sim,
                          text_1_preview = create_text_preview text1 default_max_length,
                          text_2_preview = create_text_preview text2 default_max_length\<rparr>
                         # similarity_pairs))))"

record metadata =
  model_used :: string
  threshold_used :: real
  total_comparisons :: int
  execution_time :: real
  similarity_stats :: similarity_statistics

text \<open>
  \<open>analyze_texts\<close>. The two readings of \<^verbatim>\<open>time.time()\<close> are the parameter \<open>clock\<close>.
  The result is the value or the exception, and the state of the embedding service.
\<close>

definition analyze_texts ::
  "'m transformers \<Rightarrow> numpy \<Rightarrow> real \<times> real \<Rightarrow> 'm models \<Rightarrow> string list \<Rightarrow> string \<Rightarrow> real
   \<Rightarrow> (error + ndarray \<times> similarity_pair list \<times> metadata) \<times> 'm models" where
  "analyze_texts lib np clock models texts model_key threshold =
     (case generate_embeddings lib models texts model_key of
        (Inl e, models') \<Rightarrow> (Inl e, models')
      | (Inr embeddings, models') \<Rightarrow>
          (case calculate_similarity_matrix embeddings of
             Inl e \<Rightarrow> (Inl e, models')
           | Inr similarity_matrix \<Rightarrow>
               (case find_similar_pairs similarity_matrix threshold of
                  Inl e \<Rightarrow> (Inl e, models')
                | Inr similar_pairs_raw \<Rightarrow>
                    (case create_similarity_pairs similar_pairs_raw texts of
                       Inl e \<Rightarrow> (Inl e, models')
                     | Inr plagiarized_pairs \<Rightarrow>
                         (case get_similarity_statistics np similarity_matrix of
                            Inl e \<Rightarrow> (Inl e, models')
                          | Inr stats \<Rightarrow>
                              (Inr (similarity_matrix, plagiarized_pairs,
                                 \<lparr>model_used = model_key,
                                  threshold_used = threshold,
                                  total_comparisons =
                                    int (length texts) * (int (length texts) - 1) div 2,
                                  execution_time = snd clock - fst clock,
                                  similarity_stats = stats\<rparr>), models'))))))"

record similarity_report =
  similarity_score :: real
  is_highly_similar :: bool
  is_moderately_similar :: bool
  text1_preview :: string
  text2_preview :: string
  report_model_used :: string
  analysis_time :: real

definition get_text_similarity_report ::
  "'m transformers \<Rightarrow> numpy \<Rightarrow> real \<times> real \<Rightarrow> 'm models \<Rightarrow> string \<Rightarrow> string \<Rightarrow> string
   \<Rightarrow> (error + similarity_report) \<times> 'm models" where
  "get_text_similarity_report lib np clock models text1 text2 model_key =
     (let texts = [text1, text2]
      in case analyze_texts lib np clock models texts model_key 0 of
           (Inl e, models') \<Rightarrow> (Inl e, models')
         | (Inr (similarity_matrix, _, meta), models') \<Rightarrow>
             (case get_entry similarity_matrix 0 1 of
                Inl e \<Rightarrow> (Inl e, models')
              | Inr score \<Rightarrow>
                  (Inr \<lparr>similarity_score = score,
                        is_highly_similar = (score \<ge> 0.85),
                        is_moderately_similar = (score \<ge> 0.7),
                        text1_preview = create_text_preview text1 default_max_length,
                        text2_preview = create_text_preview text2 default_max_length,
                        report_model_used = model_key,
                        analysis_time = execution_time meta\<rparr>, models')))"

subsection \<open>The /compare handler (api/analyze.py)\<close>

datatype http_exception = HTTPException nat string

text \<open>The body of the \<^verbatim>\<open>try\<close> block of \<open>compare_two_texts\<close>.\<close>

definition compare_two_texts_body ::
  "'m transformers \<Rightarrow> numpy \<Rightarrow> real \<times> real \<Rightarrow> 'm models \<Rightarrow> string \<Rightarrow> string \<Rightarrow> string
   \<Rightarrow> (error + similarity_report) \<times> 'm models" where
  "compare_two_texts_body lib np clock models text1 text2 model_key =
     (if strip text1 = [] \<or> strip text2 = [] then
        (Inl (ValueError ''Both texts must be non-empty''), models)
      else get_text_similarity_report lib np clock models text1 text2 model_key)"

text \<open>The handler, with its \<^verbatim>\<open>except\<close> clauses: a ValueError is answered with status 400,
  any other exception with status 500.\<close>

definition compare_two_texts ::
  "'m transformers \<Rightarrow> numpy \<Rightarrow> real \<times> real \<Rightarrow> 'm models \<Rightarrow> string \<Rightarrow> string \<Rightarrow> string
   \<Rightarrow> (http_exception + similarity_report) \<times> 'm models" where
  "compare_two_texts lib np clock models text1 text2 model_key =
     (case compare_two_texts_body lib np clock models text1 text2 model_key of
        (Inl (ValueError msg), models') \<Rightarrow>
          (Inl (HTTPException 400 (''Invalid input: '' @ msg)), models')
      | (Inl _, models') \<Rightarrow>
          (Inl (HTTPException 500 ''An unexpected error occurred during text comparison''),
           models')
      | (Inr result, models') \<Rightarrow> (Inr result, models'))"

subsection \<open>Notions used in the statements\<close>

text \<open>The entries of row \<open>i\<close> at the columns \<open>js\<close> that reach the threshold, in the order
  of \<open>js\<close>, and the same over the strict upper triangle of an \<open>n\<close> by \<open>n\<close> matrix, row
  after row.\<close>

definition row_hits :: "ndarray \<Rightarrow> real \<Rightarrow> nat \<Rightarrow> nat list \<Rightarrow> raw_pair list" where
  "row_hits a t i js = filter (\<lambda>p. t \<le> snd (snd p)) (map (\<lambda>j. (i, j, a ! i ! j)) js)"

definition triangle_hits :: "ndarray \<Rightarrow> real \<Rightarrow> nat \<Rightarrow> nat list \<Rightarrow> raw_pair list" where
  "triangle_hits a t n is = concat (map (\<lambda>i. row_hits a t i [i + 1..<n]) is)"



text \<open>The index pair of one triple comes before that of another: ascending
  \<open>(indexA, indexB)\<close>.\<close>

definition index_less :: "raw_pair \<Rightarrow> raw_pair \<Rightarrow> bool" where
  "index_less p q =
     (fst p < fst q \<or> (fst p = fst q \<and> fst (snd p) < fst (snd q)))"

text \<open>The order of the output: descending score, and ascending index pair among equal
  scores.\<close>

definition pair_before :: "raw_pair \<Rightarrow> raw_pair \<Rightarrow> bool" where
  "pair_before p q =
     (snd (snd p) > snd (snd q) \<or> (snd (snd p) = snd (snd q) \<and> index_less p q))"

subsection \<open>The float64 arithmetic of numpy\<close>

text \<open>
  IEEE 754 binary64 with rounding to nearest, ties to even, for the values of magnitude
  below \<open>2 ^ 1023\<close>: a double is a multiple of its unit in the last place, which is
  \<open>2 ^ (e - 52)\<close> for a magnitude in \<open>[2 ^ e, 2 ^ (e + 1))\<close> and \<open>2 ^ - 1074\<close> below
  \<open>2 ^ - 1022\<close>. \<open>ulp_search\<close> finds the unit by halving or doubling the magnitude, from
  the unit \<open>2 ^ - 52\<close> of \<open>[1, 2)\<close>, in at most 1022 steps.
\<close>

definition round_half_even :: "real \<Rightarrow> int" where
  "round_half_even x =
     (let f = \<lfloor>x\<rfloor>; r = x - of_int f
      in if r < 1 / 2 then f else if r > 1 / 2 then f + 1 else if even f then f else f + 1)"

fun ulp_search :: "nat \<Rightarrow> real \<Rightarrow> real \<Rightarrow> real" where
  "ulp_search 0 a u = u"
| "ulp_search (Suc k) a u =
     (if a \<ge> 2 then ulp_search k (a / 2) (u * 2)
      else if a < 1 then ulp_search k (a * 2) (u / 2)
      else u)"

definition round_to_double :: "real \<Rightarrow> real" where
  "round_to_double x =
     (if x = 0 then 0
      else
        (let ulp = ulp_search 1022 \<bar>x\<bar> (1 / 4503599627370496)
         in of_int (round_half_even (x / ulp)) * ulp))"

definition double_add :: "real \<Rightarrow> real \<Rightarrow> real" where
  "double_add x y = round_to_double (x + y)"

definition double_sub :: "real \<Rightarrow> real \<Rightarrow> real" where
  "double_sub x y = round_to_double (x - y)"

definition double_mul :: "real \<Rightarrow> real \<Rightarrow> real" where
  "double_mul x y = round_to_double (x * y)"

definition double_div :: "real \<Rightarrow> real \<Rightarrow> real" where
  "double_div x y = round_to_double (x / y)"

definition double_sqrt :: "real \<Rightarrow> real" where
  "double_sqrt x = round_to_double (sqrt x)"

text \<open>
  \<^verbatim>\<open>np.mean\<close> on a float64 array: the sum of the elements in float64, divided by their
  number in float64. The elements are added one after the other, as numpy adds an array
  of fewer than eight elements (a longer array is added in blocks, which is not
  modelled here). \<^verbatim>\<open>np.std\<close>: the square root of the mean of the squares of the
  differences to the mean, each operation in float64.
\<close>

definition float64_mean :: "real list \<Rightarrow> real" where
  "float64_mean xs = double_div (foldl double_add 0 xs) (real (length xs))"

definition float64_std :: "real list \<Rightarrow> real" where
  "float64_std xs =
     (let arrmean = float64_mean xs;
          x = map (\<lambda>v. double_sub v arrmean) xs;
          x' = map (\<lambda>d. double_mul d d) x
      in double_sqrt (float64_mean x'))"

definition float64_numpy :: numpy where
  "float64_numpy = \<lparr>np_mean = float64_mean, np_std = float64_std\<rparr>"

subsection \<open>Example inputs\<close>

text \<open>The matrix of the three-document scenario, a matrix with two equal scores, a
  matrix that differs from it only on and below the diagonal, an array that is not
  square, and a library whose model loads and encodes every text as the same unit
  vector.\<close>

definition scenario_matrix :: ndarray where
  "scenario_matrix = [[1, 0.9, 0.2], [0.9, 1, 0.3], [0.2, 0.3, 1]]"

definition tie_matrix :: ndarray where
  "tie_matrix = [[1, 0.5, 0.9], [0.5, 1, 0.5], [0.9, 0.5, 1]]"

definition tie_matrix_variant :: ndarray where
  "tie_matrix_variant = [[7, 0.5, 0.9], [- 3, 8, 0.5], [0, 0.25, 9]]"

text \<open>The double nearest to \<open>0.1\<close>, the value of the Python literal \<^verbatim>\<open>0.1\<close>, and the matrix
  of three documents whose pairwise similarities are all that double.\<close>

definition double_tenth :: real where
  "double_tenth = 3602879701896397 / 36028797018963968"


definition ragged_matrix :: ndarray where
  "ragged_matrix = [[1], [1]]"

definition constant_library :: "unit transformers" where
  "constant_library =
     \<lparr>SentenceTransformer = (\<lambda>model_name trust_remote. Inr ()),
      encode = (\<lambda>model texts. Inr (map (\<lambda>t. [1, 0]) texts))\<rparr>"

section \<open>Properties\<close>

subsection \<open>The similarity matrix\<close>

lemma square_set_entry:
  "square a \<Longrightarrow> square (set_entry a i j v)"
  by (cases "i < length a") (auto simp: square_def set_entry_def list_all_length nth_list_update)

lemma length_set_entry: "length (set_entry a i j v) = length a"
  by (simp add: set_entry_def)

lemma nth_set_entry:
  "i < length a \<Longrightarrow> x < length a \<Longrightarrow> j < length (a ! i) \<Longrightarrow>
   set_entry a i j v ! x ! y = (if x = i \<and> y = j then v else a ! x ! y)"
  by (auto simp: set_entry_def nth_list_update)

lemma square_nth: "square a \<Longrightarrow> i < length a \<Longrightarrow> length (a ! i) = length a"
  by (simp add: square_def list_all_length)

lemma matrix_cell_square: "square a \<Longrightarrow> square (matrix_cell e i j a)"
  by (simp add: matrix_cell_def Let_def square_set_entry)

lemma matrix_cell_length: "length (matrix_cell e i j a) = length a"
  by (simp add: matrix_cell_def Let_def length_set_entry)

lemma matrix_cell_nth:
  assumes "square a" "i < length a" "j < length a" "x < length a" "y < length a"
  shows "matrix_cell e i j a ! x ! y =
     (if x = i \<and> y = j \<and> i = j then 1
      else if i < j \<and> ((x = i \<and> y = j) \<or> (x = j \<and> y = i)) then dot (e ! i) (e ! j)
      else a ! x ! y)"
  using assms
  by (auto simp: matrix_cell_def Let_def nth_set_entry square_nth length_set_entry square_set_entry)

lemma matrix_row_inv:
  assumes "square a" "i < length a" "l \<le> length a"
  shows "square (fold (matrix_cell e i) [0..<l] a) \<and>
         length (fold (matrix_cell e i) [0..<l] a) = length a \<and>
         (\<forall>x < length a. \<forall>y < length a.
            fold (matrix_cell e i) [0..<l] a ! x ! y =
              (if x = i \<and> y = i \<and> i < l then 1
               else if x = i \<and> i < y \<and> y < l then dot (e ! i) (e ! y)
               else if y = i \<and> i < x \<and> x < l then dot (e ! i) (e ! x)
               else a ! x ! y))"
  using assms(3)
proof (induction l)
  case 0
  then show ?case using assms by simp
next
  case (Suc l)
  let ?b = "fold (matrix_cell e i) [0..<l] a"
  have IH: "square ?b" "length ?b = length a"
    "\<And>x y. x < length a \<Longrightarrow> y < length a \<Longrightarrow> ?b ! x ! y =
              (if x = i \<and> y = i \<and> i < l then 1
               else if x = i \<and> i < y \<and> y < l then dot (e ! i) (e ! y)
               else if y = i \<and> i < x \<and> x < l then dot (e ! i) (e ! x)
               else a ! x ! y)"
    using Suc.IH Suc.prems by simp_all
  have l: "l < length a" using Suc.prems by simp
  have step: "fold (matrix_cell e i) [0..<Suc l] a = matrix_cell e i l ?b"
    by simp
  have sq: "square (matrix_cell e i l ?b)" using IH(1) by (rule matrix_cell_square)
  have len: "length (matrix_cell e i l ?b) = length a"
    by (simp add: matrix_cell_length IH(2))
  have ent: "\<forall>x < length a. \<forall>y < length a.
      matrix_cell e i l ?b ! x ! y =
              (if x = i \<and> y = i \<and> i < Suc l then 1
               else if x = i \<and> i < y \<and> y < Suc l then dot (e ! i) (e ! y)
               else if y = i \<and> i < x \<and> x < Suc l then dot (e ! i) (e ! x)
               else a ! x ! y)"
  proof (intro allI impI)
    fix x y assume xy: "x < length a" "y < length a"
    have "matrix_cell e i l ?b ! x ! y =
     (if x = i \<and> y = l \<and> i = l then 1
      else if i < l \<and> ((x = i \<and> y = l) \<or> (x = l \<and> y = i)) then dot (e ! i) (e ! l)
      else ?b ! x ! y)"
      using matrix_cell_nth[OF IH(1), of i l x y e] assms(2) l xy IH(2) by simp
    then show "matrix_cell e i l ?b ! x ! y =
              (if x = i \<and> y = i \<and> i < Suc l then 1
               else if x = i \<and> i < y \<and> y < Suc l then dot (e ! i) (e ! y)
               else if y = i \<and> i < x \<and> x < Suc l then dot (e ! i) (e ! x)
               else a ! x ! y)"
      unfolding IH(3)[OF xy]
      by (cases "x = i"; cases "y = i"; cases "x = l"; cases "y = l"; simp add: less_Suc_eq)
  qed
  show ?case unfolding step using sq len ent by blast
qed


lemma matrix_row_props:
  assumes "square a" "i < length a"
  shows "square (matrix_row e (length a) i a)"
    and "length (matrix_row e (length a) i a) = length a"
    and "x < length a \<Longrightarrow> y < length a \<Longrightarrow>
         matrix_row e (length a) i a ! x ! y =
              (if x = i \<and> y = i then 1
               else if x = i \<and> i < y then dot (e ! i) (e ! y)
               else if y = i \<and> i < x then dot (e ! i) (e ! x)
               else a ! x ! y)"
  using matrix_row_inv[OF assms, of "length a" e] assms(2)
  by (simp_all add: matrix_row_def)

lemma square_zeros: "square (zeros n n)"
  by (simp add: square_def zeros_def list_all_length)

lemma length_zeros: "length (zeros n n) = n"
  by (simp add: zeros_def)

lemma nth_zeros: "x < n \<Longrightarrow> y < n \<Longrightarrow> zeros n n ! x ! y = 0"
  by (simp add: zeros_def)

lemma matrix_rows_inv:
  assumes "k \<le> n"
  shows "square (fold (matrix_row e n) [0..<k] (zeros n n)) \<and>
         length (fold (matrix_row e n) [0..<k] (zeros n n)) = n \<and>
         (\<forall>x < n. \<forall>y < n.
            fold (matrix_row e n) [0..<k] (zeros n n) ! x ! y =
              (if x = y then (if x < k then 1 else 0)
               else if min x y < k then dot (e ! min x y) (e ! max x y) else 0))"
  using assms
proof (induction k)
  case 0
  then show ?case by (simp add: square_zeros length_zeros nth_zeros)
next
  case (Suc k)
  let ?b = "fold (matrix_row e n) [0..<k] (zeros n n)"
  have IH: "square ?b" "length ?b = n"
    "\<And>x y. x < n \<Longrightarrow> y < n \<Longrightarrow> ?b ! x ! y =
              (if x = y then (if x < k then 1 else 0)
               else if min x y < k then dot (e ! min x y) (e ! max x y) else 0)"
    using Suc.IH Suc.prems by simp_all
  have k: "k < length ?b" using Suc.prems IH(2) by simp
  have step: "fold (matrix_row e n) [0..<Suc k] (zeros n n) = matrix_row e (length ?b) k ?b"
    by (simp add: IH(2))
  have ent: "\<forall>x < n. \<forall>y < n.
      matrix_row e (length ?b) k ?b ! x ! y =
              (if x = y then (if x < Suc k then 1 else 0)
               else if min x y < Suc k then dot (e ! min x y) (e ! max x y) else 0)"
  proof (intro allI impI)
    fix x y assume xy: "x < n" "y < n"
    have "matrix_row e (length ?b) k ?b ! x ! y =
              (if x = k \<and> y = k then 1
               else if x = k \<and> k < y then dot (e ! k) (e ! y)
               else if y = k \<and> k < x then dot (e ! k) (e ! x)
               else ?b ! x ! y)"
      using matrix_row_props(3)[OF IH(1) k, of x y e] xy IH(2) by simp
    then show "matrix_row e (length ?b) k ?b ! x ! y =
              (if x = y then (if x < Suc k then 1 else 0)
               else if min x y < Suc k then dot (e ! min x y) (e ! max x y) else 0)"
      unfolding IH(3)[OF xy]
      by (cases "x = k"; cases "y = k"; cases "x < y"; simp add: less_Suc_eq min_def max_def)
  qed
  show ?case unfolding step
    using matrix_row_props(1,2)[OF IH(1) k, of e] IH(2) ent by simp
qed

lemma calculate_similarity_matrix_entries:
  assumes "calculate_similarity_matrix e = Inr m"
  shows "square m" and "length m = length e"
    and "x < length e \<Longrightarrow> y < length e \<Longrightarrow>
         m ! x ! y = (if x = y then 1 else dot (e ! min x y) (e ! max x y))"
proof -
  have m: "m = fold (matrix_row e (length e)) [0..<length e] (zeros (length e) (length e))"
    using assms by (simp add: calculate_similarity_matrix_def Let_def split: if_splits)
  show "square m" "length m = length e"
    using matrix_rows_inv[of "length e" "length e" e] by (simp_all add: m)
  show "x < length e \<Longrightarrow> y < length e \<Longrightarrow>
         m ! x ! y = (if x = y then 1 else dot (e ! min x y) (e ! max x y))"
    using matrix_rows_inv[of "length e" "length e" e] by (auto simp: m min_def)
qed

lemma nd_size_pos: "e \<noteq> [] \<Longrightarrow> [] \<notin> set e \<Longrightarrow> nd_size e \<noteq> 0"
  by (cases e) (auto simp: nd_size_def)

text \<open>
  Claim C1. For a non-empty sequence of embedding vectors (each with at least one
  component), \<open>calculate_similarity_matrix\<close> returns a matrix: it is square, with one row
  for each vector, entry \<open>(i, j)\<close> equals entry \<open>(j, i)\<close> for all \<open>i\<close> and \<open>j\<close>, and every
  diagonal entry is \<open>1\<close>, whatever the vectors contain.
\<close>

theorem similarity_matrix_symmetric_unit_diagonal:
  assumes "embeddings \<noteq> []" and "[] \<notin> set embeddings"
  shows "\<exists>m. calculate_similarity_matrix embeddings = Inr m \<and>
             length m = length embeddings \<and> square m \<and>
             (\<forall>i < length m. \<forall>j < length m. m ! i ! j = m ! j ! i) \<and>
             (\<forall>i < length m. m ! i ! i = 1)"
proof -
  obtain m where m: "calculate_similarity_matrix embeddings = Inr m"
    using nd_size_pos[OF assms] by (simp add: calculate_similarity_matrix_def Let_def)
  note E = calculate_similarity_matrix_entries[OF m]
  have "\<forall>i < length m. \<forall>j < length m. m ! i ! j = m ! j ! i"
    using E(3) by (simp add: E(2) min.commute max.commute)
  moreover have "\<forall>i < length m. m ! i ! i = 1"
    using E(3) by (simp add: E(2))
  ultimately show ?thesis using m E(1,2) by simp
qed

theorem similarity_matrix_symmetric_unit_diagonal_witness:
  "[[1, 0], [0.6, 0.8], [0, 1]] \<noteq> ([] :: ndarray) \<and> [] \<notin> set [[1, 0], [0.6, 0.8], [0, 1 :: real]] \<and>
   calculate_similarity_matrix [[1, 0], [0.6, 0.8], [0, 1]] =
     Inr [[1, 0.6, 0], [0.6, 1, 0.8], [0, 0.8, 1]] \<and>
   (\<exists>m. calculate_similarity_matrix [[1, 0], [0.6, 0.8], [0, 1]] = Inr m \<and>
             length m = length [[1, 0], [0.6, 0.8], [0, 1 :: real]] \<and> square m \<and>
             (\<forall>i < length m. \<forall>j < length m. m ! i ! j = m ! j ! i) \<and>
             (\<forall>i < length m. m ! i ! i = 1))"
proof -
  have ev: "calculate_similarity_matrix [[1, 0], [0.6, 0.8], [0, 1]] =
     Inr [[1, 0.6, 0], [0.6, 1, 0.8], [0, 0.8, 1]]"
    by (simp add: calculate_similarity_matrix_def nd_size_def zeros_def matrix_row_def
        matrix_cell_def set_entry_def dot_def Let_def upt_rec numeral_eq_Suc)
  show ?thesis
    using similarity_matrix_symmetric_unit_diagonal[of "[[1, 0], [0.6, 0.8], [0, 1]]"] ev
    by simp
qed

subsection \<open>The scan of the upper triangle\<close>

lemma get_entry_Inr: "get_entry a i j = Inr v \<Longrightarrow> v = a ! i ! j"
  by (simp add: get_entry_def split: if_splits)

lemma get_entry_Inl: "get_entry a i j = Inl e \<Longrightarrow> e = IndexError"
  by (simp add: get_entry_def split: if_splits)

lemma get_entry_square:
  "square a \<Longrightarrow> i < length a \<Longrightarrow> j < length a \<Longrightarrow> get_entry a i j = Inr (a ! i ! j)"
  by (simp add: get_entry_def square_nth)

lemma row_hits_Nil: "row_hits a t i [] = []"
  by (simp add: row_hits_def)

lemma row_hits_Cons:
  "row_hits a t i (j # js) =
     (if t \<le> a ! i ! j then [(i, j, a ! i ! j)] else []) @ row_hits a t i js"
  by (simp add: row_hits_def)

lemma scan_row_Inr:
  "scan_row a t i js acc = Inr r \<Longrightarrow> r = acc @ row_hits a t i js"
proof (induction js arbitrary: acc)
  case Nil
  then show ?case by (simp add: row_hits_Nil)
next
  case (Cons j js)
  then obtain v where v: "get_entry a i j = Inr v"
    by (cases "get_entry a i j") simp_all
  have va: "v = a ! i ! j" using v by (rule get_entry_Inr)
  have "scan_row a t i js (if t \<le> v then acc @ [(i, j, v)] else acc) = Inr r"
    using Cons.prems v by simp
  from Cons.IH[OF this] show ?case
    by (simp add: row_hits_Cons va)
qed

lemma scan_row_Inl: "scan_row a t i js acc = Inl e \<Longrightarrow> e = IndexError"
proof (induction js arbitrary: acc)
  case Nil
  then show ?case by simp
next
  case (Cons j js)
  show ?case
  proof (cases "get_entry a i j")
    case (Inl e')
    with Cons.prems show ?thesis by (simp add: get_entry_Inl)
  next
    case (Inr v)
    with Cons show ?thesis by simp
  qed
qed

lemma scan_row_square:
  "square a \<Longrightarrow> i < length a \<Longrightarrow> \<forall>j \<in> set js. j < length a \<Longrightarrow>
   scan_row a t i js acc = Inr (acc @ row_hits a t i js)"
proof (induction js arbitrary: acc)
  case Nil
  then show ?case by (simp add: row_hits_Nil)
next
  case (Cons j js)
  then show ?case by (simp add: get_entry_square row_hits_Cons)
qed

lemma scan_rows_Inr:
  "scan_rows a t n is acc = Inr r \<Longrightarrow> r = acc @ triangle_hits a t n is"
proof (induction "is" arbitrary: acc)
  case Nil
  then show ?case by (simp add: triangle_hits_def)
next
  case (Cons i "is")
  then obtain acc' where a: "scan_row a t i [i + 1..<n] acc = Inr acc'"
    by (cases "scan_row a t i [i + 1..<n] acc") simp_all
  have "acc' = acc @ row_hits a t i [i + 1..<n]" using a by (rule scan_row_Inr)
  moreover have "r = acc' @ triangle_hits a t n is" using Cons a by simp
  ultimately show ?case by (simp add: triangle_hits_def)
qed

lemma scan_rows_Inl: "scan_rows a t n is acc = Inl e \<Longrightarrow> e = IndexError"
proof (induction "is" arbitrary: acc)
  case Nil
  then show ?case by simp
next
  case (Cons i "is")
  show ?case
  proof (cases "scan_row a t i [i + 1..<n] acc")
    case (Inl e')
    with Cons.prems show ?thesis by (simp add: scan_row_Inl)
  next
    case (Inr v)
    with Cons show ?thesis by simp
  qed
qed

lemma scan_rows_square:
  "square a \<Longrightarrow> \<forall>i \<in> set is. i < length a \<Longrightarrow>
   scan_rows a t (length a) is acc = Inr (acc @ triangle_hits a t (length a) is)"
proof (induction "is" arbitrary: acc)
  case Nil
  then show ?case by (simp add: triangle_hits_def)
next
  case (Cons i "is")
  then show ?case by (simp add: scan_row_square triangle_hits_def)
qed

lemma find_similar_pairs_Inr:
  assumes "find_similar_pairs a t = Inr ps"
  shows "ps = sort_reverse (\<lambda>x. snd (snd x)) (triangle_hits a t (length a) [0..<length a])"
    and "0 \<le> t" and "t \<le> 1"
proof -
  show t: "0 \<le> t" "t \<le> 1"
    using assms by (auto simp: find_similar_pairs_def split: if_splits)
  obtain r where r: "scan_rows a t (length a) [0..<length a] [] = Inr r"
    and ps: "ps = sort_reverse (\<lambda>x. snd (snd x)) r"
    using assms t by (auto simp: find_similar_pairs_def Let_def split: sum.splits)
  show "ps = sort_reverse (\<lambda>x. snd (snd x)) (triangle_hits a t (length a) [0..<length a])"
    using scan_rows_Inr[OF r] ps by simp
qed

lemma find_similar_pairs_square:
  assumes "square a" "0 \<le> t" "t \<le> 1"
  shows "find_similar_pairs a t =
         Inr (sort_reverse (\<lambda>x. snd (snd x)) (triangle_hits a t (length a) [0..<length a]))"
  using assms scan_rows_square[of a "[0..<length a]" t "[]"]
  by (simp add: find_similar_pairs_def Let_def)

lemma find_similar_pairs_invalid:
  "\<not> (0 \<le> t \<and> t \<le> 1) \<Longrightarrow>
   find_similar_pairs a t = Inl (ValueError ''Threshold must be between 0.0 and 1.0'')"
  by (simp add: find_similar_pairs_def)

lemma find_similar_pairs_Inl_valid:
  "0 \<le> t \<Longrightarrow> t \<le> 1 \<Longrightarrow> find_similar_pairs a t = Inl e \<Longrightarrow> e = IndexError"
  by (auto simp: find_similar_pairs_def Let_def split: sum.splits dest: scan_rows_Inl)


subsection \<open>The pairs found, as a set and as a sequence\<close>

lemma set_row_hits:
  "set (row_hits a t i js) = {(i, j, a ! i ! j) | j. j \<in> set js \<and> t \<le> a ! i ! j}"
  by (auto simp: row_hits_def)

lemma set_triangle_hits:
  "set (triangle_hits a t n [0..<n]) =
     {(i, j, s). i < j \<and> j < n \<and> s = a ! i ! j \<and> t \<le> s}"
  by (auto simp: triangle_hits_def set_row_hits)

lemma sorted_row_hits:
  "sorted_wrt (<) js \<Longrightarrow> sorted_wrt index_less (row_hits a t i js)"
  unfolding row_hits_def
  by (rule sorted_wrt_filter) (simp add: sorted_wrt_map index_less_def)

lemma fst_row_hits: "p \<in> set (row_hits a t i js) \<Longrightarrow> fst p = i"
  by (auto simp: set_row_hits)

lemma fst_triangle_hits: "p \<in> set (triangle_hits a t n is) \<Longrightarrow> fst p \<in> set is"
  by (auto simp: triangle_hits_def dest: fst_row_hits)

lemma triangle_hits_Cons:
  "triangle_hits a t n (i # is) = row_hits a t i [i + 1..<n] @ triangle_hits a t n is"
  by (simp add: triangle_hits_def)

lemma sorted_triangle_hits:
  "sorted_wrt (<) is \<Longrightarrow> sorted_wrt index_less (triangle_hits a t n is)"
proof (induction "is")
  case Nil
  then show ?case by (simp add: triangle_hits_def)
next
  case (Cons i "is")
  have "\<forall>p \<in> set (row_hits a t i [i + 1..<n]). \<forall>q \<in> set (triangle_hits a t n is).
          index_less p q"
  proof (intro ballI)
    fix p q
    assume "p \<in> set (row_hits a t i [i + 1..<n])" "q \<in> set (triangle_hits a t n is)"
    then have "fst p = i" "fst q \<in> set is"
      by (auto dest: fst_row_hits fst_triangle_hits)
    then show "index_less p q" using Cons.prems by (auto simp: index_less_def)
  qed
  then show ?case
    using Cons by (simp add: triangle_hits_Cons sorted_wrt_append sorted_row_hits)
qed

lemma index_less_irrefl: "\<not> index_less p p"
  by (simp add: index_less_def)

lemma sorted_wrt_irrefl_distinct':
  "sorted_wrt R xs \<Longrightarrow> (\<And>x. \<not> R x x) \<Longrightarrow> distinct xs"
  by (induction xs) auto

lemma distinct_triangle_hits: "distinct (triangle_hits a t n [0..<n])"
  by (rule sorted_wrt_irrefl_distinct'[OF sorted_triangle_hits]) (simp_all add: index_less_irrefl)

subsection \<open>The stable sort\<close>

lemma set_sort_reverse: "set (sort_reverse key xs) = set xs"
  by (simp add: sort_reverse_def)

lemma distinct_sort_reverse: "distinct (sort_reverse key xs) = distinct xs"
  by (simp add: sort_reverse_def)

lemma length_sort_reverse: "length (sort_reverse key xs) = length xs"
  by (simp add: sort_reverse_def)

lemma insort_key_stable_sorted:
  fixes key :: "'a \<Rightarrow> real"
  assumes "sorted_wrt (\<lambda>p q. key p < key q \<or> (key p = key q \<and> R p q)) zs"
    and "\<forall>z \<in> set zs. R y z"
  shows "sorted_wrt (\<lambda>p q. key p < key q \<or> (key p = key q \<and> R p q)) (insort_key key y zs)"
  using assms
proof (induction zs)
  case Nil
  then show ?case by simp
next
  case (Cons z zs)
  show ?case
  proof (cases "key y \<le> key z")
    case True
    have "\<forall>w \<in> set (z # zs). key y < key w \<or> (key y = key w \<and> R y w)"
    proof
      fix w assume w: "w \<in> set (z # zs)"
      have "key z \<le> key w" using Cons.prems(1) w by auto
      then have "key y \<le> key w" using True by simp
      then show "key y < key w \<or> (key y = key w \<and> R y w)"
        using Cons.prems(2) w by (auto simp: less_le)
    qed
    then show ?thesis using True Cons.prems(1) by simp
  next
    case False
    have "sorted_wrt (\<lambda>p q. key p < key q \<or> (key p = key q \<and> R p q)) (insort_key key y zs)"
      using Cons by simp
    moreover have "\<forall>w \<in> set (insort_key key y zs). key z < key w \<or> (key z = key w \<and> R z w)"
      using Cons.prems(1) False by (auto simp: set_insort_key)
    ultimately show ?thesis using False by simp
  qed
qed

lemma sort_key_stable_sorted:
  fixes key :: "'a \<Rightarrow> real"
  assumes "sorted_wrt R ys"
  shows "sorted_wrt (\<lambda>p q. key p < key q \<or> (key p = key q \<and> R p q)) (sort_key key ys)"
  using assms
proof (induction ys)
  case Nil
  then show ?case by simp
next
  case (Cons y ys)
  then show ?case by (simp add: insort_key_stable_sorted)
qed

lemma sort_reverse_sorted:
  fixes key :: "'a \<Rightarrow> real"
  assumes "sorted_wrt R xs"
  shows "sorted_wrt (\<lambda>p q. key p > key q \<or> (key p = key q \<and> R p q)) (sort_reverse key xs)"
proof -
  have "sorted_wrt (\<lambda>p q. R q p) (rev xs)"
    using assms by (simp add: sorted_wrt_rev)
  then have "sorted_wrt (\<lambda>p q. key p < key q \<or> (key p = key q \<and> R q p)) (sort_key key (rev xs))"
    by (rule sort_key_stable_sorted)
  then have "sorted_wrt (\<lambda>q p. key p < key q \<or> (key p = key q \<and> R q p)) (sort_reverse key xs)"
    by (simp add: sort_reverse_def sorted_wrt_rev)
  then show ?thesis
    by (rule sorted_wrt_mono_rel[rotated]) auto
qed

lemma sorted_find_similar_pairs:
  assumes "find_similar_pairs a t = Inr ps"
  shows "sorted_wrt pair_before ps"
proof -
  have "sorted_wrt index_less (triangle_hits a t (length a) [0..<length a])"
    by (rule sorted_triangle_hits) simp
  then have "sorted_wrt (\<lambda>p q. snd (snd p) > snd (snd q) \<or> (snd (snd p) = snd (snd q) \<and> index_less p q))
     (sort_reverse (\<lambda>x. snd (snd x)) (triangle_hits a t (length a) [0..<length a]))"
    by (rule sort_reverse_sorted)
  then show ?thesis
    using find_similar_pairs_Inr(1)[OF assms] by (simp add: pair_before_def[abs_def])
qed


subsection \<open>Evaluation on the examples\<close>

lemmas find_eval = find_similar_pairs_def sort_reverse_def get_entry_def Let_def upt_rec
  numeral_eq_Suc

lemma square_examples:
  "square scenario_matrix" "square tie_matrix" "square tie_matrix_variant"
  by (simp_all add: square_def scenario_matrix_def tie_matrix_def tie_matrix_variant_def)

lemma find_scenario:
  "find_similar_pairs scenario_matrix 0.7 = Inr [(0, 1, 0.9)]"
  by (simp add: scenario_matrix_def find_eval)

lemma find_scenario_low:
  "find_similar_pairs scenario_matrix 0.25 = Inr [(0, 1, 0.9), (1, 2, 0.3)]"
  by (simp add: scenario_matrix_def find_eval)

lemma find_tie:
  "find_similar_pairs tie_matrix 0.5 = Inr [(0, 2, 0.9), (0, 1, 0.5), (1, 2, 0.5)]"
  by (simp add: tie_matrix_def find_eval)

lemma find_tie_variant:
  "find_similar_pairs tie_matrix_variant 0.5 = Inr [(0, 2, 0.9), (0, 1, 0.5), (1, 2, 0.5)]"
  by (simp add: tie_matrix_variant_def find_eval)

lemma find_ragged:
  "find_similar_pairs ragged_matrix 0.5 = Inl IndexError"
  "find_similar_pairs ragged_matrix 1.5 = Inl (ValueError ''Threshold must be between 0.0 and 1.0'')"
  by (simp_all add: ragged_matrix_def find_eval)


subsection \<open>Claims about find\_similar\_pairs\<close>

text \<open>
  Claim C2. For a square matrix and a threshold in \<open>[0, 1]\<close>, \<open>find_similar_pairs\<close>
  returns exactly the triples \<open>(i, j, score)\<close> with \<open>i < j\<close> inside the matrix, \<open>score\<close>
  the entry at \<open>(i, j)\<close> and \<open>score \<ge> threshold\<close> (the boundary included), and no index
  pair occurs twice.
\<close>

theorem find_similar_pairs_exact:
  assumes "square a" and "0 \<le> t" and "t \<le> 1"
  shows "\<exists>ps. find_similar_pairs a t = Inr ps \<and>
           set ps = {(i, j, s). i < j \<and> j < length a \<and> s = a ! i ! j \<and> t \<le> s} \<and>
           distinct (map (\<lambda>(i, j, s). (i, j)) ps)"
proof -
  let ?hits = "triangle_hits a t (length a) [0..<length a]"
  let ?ps = "sort_reverse (\<lambda>x. snd (snd x)) ?hits"
  have ps: "find_similar_pairs a t = Inr ?ps"
    using assms by (rule find_similar_pairs_square)
  have set: "set ?ps = {(i, j, s). i < j \<and> j < length a \<and> s = a ! i ! j \<and> t \<le> s}"
    by (simp add: set_sort_reverse set_triangle_hits)
  have "distinct ?ps"
    by (simp add: distinct_sort_reverse distinct_triangle_hits)
  moreover have "inj_on (\<lambda>(i, j, s). (i, j)) (set ?ps)"
    unfolding set by (auto simp: inj_on_def)
  ultimately have "distinct (map (\<lambda>(i, j, s). (i, j)) ?ps)"
    by (simp add: distinct_map)
  with ps set show ?thesis by blast
qed

theorem find_similar_pairs_exact_witness:
  "square scenario_matrix \<and> (0::real) \<le> 0.7 \<and> (0.7::real) \<le> 1 \<and>
   find_similar_pairs scenario_matrix 0.7 = Inr [(0, 1, 0.9)] \<and>
   (\<exists>ps. find_similar_pairs scenario_matrix 0.7 = Inr ps \<and>
      set ps = {(i, j, s). i < j \<and> j < length scenario_matrix \<and>
                  s = scenario_matrix ! i ! j \<and> 0.7 \<le> s} \<and>
      distinct (map (\<lambda>(i, j, s). (i, j)) ps))"
  using find_similar_pairs_exact[of scenario_matrix "0.7"] square_examples(1) find_scenario
  by simp

text \<open>
  Claim C3. The list that \<open>find_similar_pairs\<close> returns is in descending order of
  score, and triples of equal score are in ascending order of their index pair
  \<open>(indexA, indexB)\<close>; a call with the same matrix and threshold returns the same list.
\<close>

theorem find_similar_pairs_sorted:
  assumes "find_similar_pairs a t = Inr ps"
  shows "sorted_wrt pair_before ps \<and>
         (\<forall>ps'. find_similar_pairs a t = Inr ps' \<longrightarrow> ps' = ps)"
  using assms sorted_find_similar_pairs[OF assms] by simp

theorem find_similar_pairs_sorted_witness:
  "find_similar_pairs tie_matrix 0.5 = Inr [(0, 2, 0.9), (0, 1, 0.5), (1, 2, 0.5)] \<and>
   sorted_wrt pair_before [(0, 2, 0.9), (0, 1, 0.5), (1, 2, 0.5)]"
  using find_similar_pairs_sorted[OF find_tie] find_tie by simp

text \<open>
  Claim C4. For a square matrix and thresholds \<open>0 \<le> t1 < t2 \<le> 1\<close>, every triple that
  \<open>find_similar_pairs\<close> returns at \<open>t2\<close> is among those it returns at \<open>t1\<close>.
\<close>

theorem find_similar_pairs_threshold_monotone:
  assumes "square a" and "0 \<le> t1" and "t1 < t2" and "t2 \<le> 1"
  shows "\<exists>ps1 ps2. find_similar_pairs a t1 = Inr ps1 \<and> find_similar_pairs a t2 = Inr ps2 \<and>
           set ps2 \<subseteq> set ps1"
proof -
  have 1: "find_similar_pairs a t1 =
      Inr (sort_reverse (\<lambda>x. snd (snd x)) (triangle_hits a t1 (length a) [0..<length a]))"
    using assms by (intro find_similar_pairs_square) simp_all
  have 2: "find_similar_pairs a t2 =
      Inr (sort_reverse (\<lambda>x. snd (snd x)) (triangle_hits a t2 (length a) [0..<length a]))"
    using assms by (intro find_similar_pairs_square) simp_all
  have "set (triangle_hits a t2 (length a) [0..<length a])
        \<subseteq> set (triangle_hits a t1 (length a) [0..<length a])"
    using assms(3) by (auto simp: set_triangle_hits)
  then show ?thesis using 1 2 by (simp add: set_sort_reverse)
qed

theorem find_similar_pairs_threshold_monotone_witness:
  "square scenario_matrix \<and> (0::real) \<le> 0.25 \<and> (0.25::real) < 0.7 \<and> (0.7::real) \<le> 1 \<and>
   find_similar_pairs scenario_matrix 0.25 = Inr [(0, 1, 0.9), (1, 2, 0.3)] \<and>
   find_similar_pairs scenario_matrix 0.7 = Inr [(0, 1, 0.9)] \<and>
   (\<exists>ps1 ps2. find_similar_pairs scenario_matrix 0.25 = Inr ps1 \<and>
      find_similar_pairs scenario_matrix 0.7 = Inr ps2 \<and> set ps2 \<subseteq> set ps1)"
  using find_similar_pairs_threshold_monotone[of scenario_matrix "0.25" "0.7"]
    square_examples(1) find_scenario find_scenario_low
  by simp

text \<open>
  Claim C6. \<open>find_similar_pairs\<close> raises the ValueError (the validation error) exactly
  when the threshold is outside \<open>[0, 1]\<close>; with a threshold inside \<open>[0, 1]\<close> it returns
  a list on every square matrix; and with a threshold outside it the outcome is the
  same for every array, so no entry of the matrix is read.
\<close>

theorem find_similar_pairs_threshold_validation:
  "((\<exists>msg. find_similar_pairs a t = Inl (ValueError msg)) \<longleftrightarrow> \<not> (0 \<le> t \<and> t \<le> 1)) \<and>
   (square a \<and> 0 \<le> t \<and> t \<le> 1 \<longrightarrow> (\<exists>ps. find_similar_pairs a t = Inr ps)) \<and>
   (\<not> (0 \<le> t \<and> t \<le> 1) \<longrightarrow>
      (\<forall>b. find_similar_pairs b t =
            Inl (ValueError ''Threshold must be between 0.0 and 1.0'')))"
proof (intro conjI impI)
  show "(\<exists>msg. find_similar_pairs a t = Inl (ValueError msg)) \<longleftrightarrow> \<not> (0 \<le> t \<and> t \<le> 1)"
  proof
    assume "\<exists>msg. find_similar_pairs a t = Inl (ValueError msg)"
    then obtain msg where m: "find_similar_pairs a t = Inl (ValueError msg)" ..
    show "\<not> (0 \<le> t \<and> t \<le> 1)"
    proof
      assume "0 \<le> t \<and> t \<le> 1"
      then have "ValueError msg = IndexError"
        using find_similar_pairs_Inl_valid[OF _ _ m] by simp
      then show False by simp
    qed
  next
    assume "\<not> (0 \<le> t \<and> t \<le> 1)"
    then show "\<exists>msg. find_similar_pairs a t = Inl (ValueError msg)"
      by (simp add: find_similar_pairs_invalid)
  qed
next
  assume "square a \<and> 0 \<le> t \<and> t \<le> 1"
  then show "\<exists>ps. find_similar_pairs a t = Inr ps"
    by (simp add: find_similar_pairs_square)
next
  assume "\<not> (0 \<le> t \<and> t \<le> 1)"
  then show "\<forall>b. find_similar_pairs b t =
            Inl (ValueError ''Threshold must be between 0.0 and 1.0'')"
    by (simp add: find_similar_pairs_invalid)
qed

theorem find_similar_pairs_threshold_validation_witness:
  "square scenario_matrix \<and> (0::real) \<le> 0.7 \<and> (0.7::real) \<le> 1 \<and>
   find_similar_pairs scenario_matrix 0.7 = Inr [(0, 1, 0.9)] \<and>
   \<not> (\<exists>msg. find_similar_pairs scenario_matrix 0.7 = Inl (ValueError msg)) \<and>
   \<not> (0 \<le> (1.5::real) \<and> (1.5::real) \<le> 1) \<and>
   (\<exists>msg. find_similar_pairs scenario_matrix 1.5 = Inl (ValueError msg)) \<and>
   find_similar_pairs ragged_matrix 0.5 = Inl IndexError \<and>
   (\<forall>b. find_similar_pairs b 1.5 =
         Inl (ValueError ''Threshold must be between 0.0 and 1.0''))"
  using find_similar_pairs_threshold_validation[of scenario_matrix "0.7"]
    find_similar_pairs_threshold_validation[of scenario_matrix "1.5"]
    square_examples(1) find_scenario find_ragged(1)
  by simp

text \<open>
  Claim C10. Two square matrices of one size that agree on every entry \<open>(i, j)\<close> with
  \<open>i < j\<close> give the same outcome of \<open>find_similar_pairs\<close> at every threshold, whatever
  their diagonal and lower-triangle entries are.
\<close>

theorem find_similar_pairs_upper_triangle_only:
  assumes "square a" and "square b" and "length a = length b"
    and "\<forall>i j. i < j \<and> j < length a \<longrightarrow> a ! i ! j = b ! i ! j"
  shows "find_similar_pairs a t = find_similar_pairs b t"
proof (cases "0 \<le> t \<and> t \<le> 1")
  case True
  have "row_hits a t i [i + 1..<length a] = row_hits b t i [i + 1..<length a]" for i
    unfolding row_hits_def using assms(4) by (intro arg_cong[where f = "filter _"] map_cong) auto
  then have "triangle_hits a t (length a) [0..<length a] = triangle_hits b t (length a) [0..<length a]"
    by (simp add: triangle_hits_def)
  then show ?thesis
    using True assms(1,2,3) by (simp add: find_similar_pairs_square)
next
  case False
  then show ?thesis by (simp add: find_similar_pairs_invalid)
qed

theorem find_similar_pairs_upper_triangle_only_witness:
  "square tie_matrix \<and> square tie_matrix_variant \<and>
   length tie_matrix = length tie_matrix_variant \<and>
   tie_matrix ! 0 ! 1 = tie_matrix_variant ! 0 ! 1 \<and>
   tie_matrix ! 0 ! 2 = tie_matrix_variant ! 0 ! 2 \<and>
   tie_matrix ! 1 ! 2 = tie_matrix_variant ! 1 ! 2 \<and>
   tie_matrix \<noteq> tie_matrix_variant \<and>
   find_similar_pairs tie_matrix 0.5 = Inr [(0, 2, 0.9), (0, 1, 0.5), (1, 2, 0.5)] \<and>
   find_similar_pairs tie_matrix 0.5 = find_similar_pairs tie_matrix_variant 0.5"
proof -
  have agree: "\<forall>i j. i < j \<and> j < length tie_matrix \<longrightarrow>
      tie_matrix ! i ! j = tie_matrix_variant ! i ! j"
    by (auto simp: tie_matrix_def tie_matrix_variant_def less_Suc_eq numeral_eq_Suc)
  have len: "length tie_matrix = length tie_matrix_variant"
    by (simp add: tie_matrix_def tie_matrix_variant_def)
  have ne: "tie_matrix \<noteq> tie_matrix_variant"
    by (simp add: tie_matrix_def tie_matrix_variant_def)
  show ?thesis
    using find_similar_pairs_upper_triangle_only[OF square_examples(2,3) len agree, of "0.5"]
      square_examples(2,3) len ne find_tie
    by (simp add: tie_matrix_def tie_matrix_variant_def)
qed

subsection \<open>The statistics\<close>










subsection \<open>Evaluation of the float64 arithmetic\<close>

lemma ulp_search_step:
  "0 < k \<Longrightarrow> ulp_search k a u =
     (if a \<ge> 2 then ulp_search (k - 1) (a / 2) (u * 2)
      else if a < 1 then ulp_search (k - 1) (a * 2) (u / 2)
      else u)"
  by (cases k) simp_all

lemmas double_eval = round_to_double_def round_half_even_def ulp_search_step Let_def

lemma round_to_double_tenth: "round_to_double (1 / 10) = double_tenth"
  by (simp add: double_eval double_tenth_def)

lemma float64_sum_tenths:
  "foldl double_add 0 [double_tenth, double_tenth, double_tenth] =
     5404319552844596 / 18014398509481984"
  by (simp add: double_add_def double_eval double_tenth_def)






subsection \<open>Claim about get\_similarity\_statistics\<close>







subsection \<open>Empty input\<close>

lemma generate_embeddings_empty:
  "generate_embeddings lib models [] model_key =
     (Inl (ValueError ''No texts provided for embedding generation''), models)"
  by (simp add: generate_embeddings_def)

text \<open>
  Claim C7. With an empty list of documents \<open>analyze_texts\<close> fails with the ValueError
  (the validation error) of \<open>generate_embeddings\<close>, whatever the libraries, the model key
  and the threshold are, and leaves the state of the embedding service as it was: no
  model is loaded and nothing is encoded. \<open>calculate_similarity_matrix\<close> fails with a
  ValueError on a sequence of no vectors.
\<close>

theorem empty_input_rejected:
  "analyze_texts lib np clock models [] model_key threshold =
     (Inl (ValueError ''No texts provided for embedding generation''), models) \<and>
   calculate_similarity_matrix [] = Inl (ValueError ''Empty embeddings array provided'')"
  by (simp add: analyze_texts_def generate_embeddings_empty calculate_similarity_matrix_def
      nd_size_def)

subsection \<open>Text previews\<close>

lemma rfind_notin: "c \<notin> set s \<Longrightarrow> rfind s c = - 1"
  by (induction s) (auto simp: Let_def)

lemma rstrip_no_space: "\<not> is_space c \<Longrightarrow> rstrip (replicate n c) = replicate n c"
  by (simp add: rstrip_def)

lemma strip_no_space: "\<not> is_space c \<Longrightarrow> strip (replicate n c) = replicate n c"
  by (simp add: strip_def rstrip_no_space)

lemma length_rstrip: "length (rstrip s) \<le> length s"
  by (simp add: rstrip_def length_dropWhile_le order_trans[OF length_dropWhile_le])

lemma create_text_preview_bound:
  "length (create_text_preview text0 max_length) \<le> max_length + 3"
proof (cases "length (strip text0) \<le> max_length")
  case True
  then show ?thesis by (simp add: create_text_preview_def Let_def)
next
  case False
  have "length (rstrip (take max_length (strip text0))) \<le> max_length"
    using length_rstrip[of "take max_length (strip text0)"] by simp
  then show ?thesis
    using False by (auto simp: create_text_preview_def Let_def)
qed

text \<open>
  Claim C8 bounds the preview of a text at the budget of 100 characters. On a text of
  101 letters \<open>create_text_preview\<close> returns the first 100 letters followed by the
  ellipsis: 103 characters. (By \<open>create_text_preview_bound\<close> a preview never has more
  than \<open>max_length + 3\<close> characters.)
\<close>

theorem create_text_preview_exceeds_budget:
  "create_text_preview (replicate 101 CHR ''a'') default_max_length =
     replicate 100 CHR ''a'' @ ''...'' \<and>
   length (create_text_preview (replicate 101 CHR ''a'') default_max_length) = 103"
proof -
  have ns: "\<not> is_space CHR ''a''" by (simp add: is_space_def)
  have "create_text_preview (replicate 101 CHR ''a'') default_max_length =
     replicate 100 CHR ''a'' @ ''...''"
    by (simp add: create_text_preview_def default_max_length_def strip_no_space[OF ns]
        rstrip_no_space[OF ns] rfind_notin Let_def)
  then show ?thesis by simp
qed

subsection \<open>Comparing two texts\<close>

lemma strip_examples:
  "strip '''' = []" "strip ''  '' = []" "strip ''abc'' = ''abc''"
  by (simp_all add: strip_def rstrip_def is_space_def)

lemma preview_examples:
  "create_text_preview '''' default_max_length = ''''"
  "create_text_preview ''abc'' default_max_length = ''abc''"
  by (simp_all add: create_text_preview_def default_max_length_def strip_examples Let_def)

lemma embeddings_example:
  "generate_embeddings constant_library Map.empty ['''', ''abc''] ''miniLM'' =
     (Inr [[1, 0], [1, 0]], [''miniLM'' \<mapsto> ()])"
  by (simp add: generate_embeddings_def get_available_models_def MODELS_def load_model_def
      constant_library_def Let_def)

lemma matrix_example:
  "calculate_similarity_matrix [[1, 0], [1, 0]] = Inr [[1, 1], [1, 1]]"
  by (simp add: calculate_similarity_matrix_def nd_size_def zeros_def matrix_row_def
      matrix_cell_def set_entry_def dot_def Let_def upt_rec numeral_eq_Suc)

lemma pairs_example:
  "find_similar_pairs [[1, 1], [1, 1]] 0 = Inr [(0, 1, 1)]"
  by (simp add: find_eval)

lemma stats_example:
  "get_similarity_statistics np [[1, 1], [1, 1]] =
     Inr \<lparr>total_pairs = 1, mean_similarity = np_mean np [1], max_similarity = 1,
          min_similarity = 1, std_similarity = np_std np [1]\<rparr>"
  by (simp add: get_similarity_statistics_def get_entry_def Let_def upt_rec numeral_eq_Suc
      np_max_def np_min_def)

lemma report_example:
  "get_text_similarity_report constant_library float64_numpy (0, 1) Map.empty '''' ''abc'' ''miniLM'' =
     (Inr \<lparr>similarity_score = 1, is_highly_similar = True, is_moderately_similar = True,
           text1_preview = '''', text2_preview = ''abc'', report_model_used = ''miniLM'',
           analysis_time = 1\<rparr>, [''miniLM'' \<mapsto> ()])"
  by (simp add: get_text_similarity_report_def analyze_texts_def embeddings_example
      matrix_example pairs_example stats_example preview_examples list_get_def
      get_entry_def)

text \<open>
  Claim C9 as stated fails on \<open>get_text_similarity_report\<close>: with an empty first text it
  loads the model, computes the embeddings and the matrix, and returns a report.
\<close>

theorem get_text_similarity_report_blank_counterexample:
  "strip '''' = [] \<and>
   get_text_similarity_report constant_library float64_numpy (0, 1) Map.empty '''' ''abc'' ''miniLM'' =
     (Inr \<lparr>similarity_score = 1, is_highly_similar = True, is_moderately_similar = True,
           text1_preview = '''', text2_preview = ''abc'', report_model_used = ''miniLM'',
           analysis_time = 1\<rparr>, [''miniLM'' \<mapsto> ()])"
  using strip_examples(1) report_example by simp

text \<open>
  Claim C9, amended. The check is in the handler of \<^verbatim>\<open>/compare\<close>: when either text is
  blank after trimming, \<open>compare_two_texts\<close> answers with status 400 and the message of
  the validation error, whatever the libraries and the model key are, and leaves the
  state of the embedding service as it was: \<open>get_text_similarity_report\<close> is not called,
  so nothing is embedded or compared.
\<close>

theorem compare_two_texts_blank:
  assumes "strip text1 = [] \<or> strip text2 = []"
  shows "compare_two_texts_body lib np clock models text1 text2 model_key =
           (Inl (ValueError ''Both texts must be non-empty''), models) \<and>
         compare_two_texts lib np clock models text1 text2 model_key =
           (Inl (HTTPException 400 ''Invalid input: Both texts must be non-empty''), models)"
  using assms by (auto simp: compare_two_texts_def compare_two_texts_body_def)

theorem compare_two_texts_blank_witness:
  "strip ''  '' = [] \<and>
   compare_two_texts_body constant_library float64_numpy (0, 1) Map.empty ''abc'' ''  '' ''miniLM'' =
     (Inl (ValueError ''Both texts must be non-empty''), Map.empty) \<and>
   compare_two_texts constant_library float64_numpy (0, 1) Map.empty ''abc'' ''  '' ''miniLM'' =
     (Inl (HTTPException 400 ''Invalid input: Both texts must be non-empty''), Map.empty)"
  using compare_two_texts_blank[of "''abc''" "''  ''" constant_library float64_numpy "(0, 1)"
      Map.empty "''miniLM''"]
    strip_examples(2)
  by simp

end
